theory Spec2Isabelle
  imports Complex_Main
begin

section \<open>Data model\<close>

text \<open>
  The program is \<^verbatim>\<open>core/processador.py\<close>: the class \<^verbatim>\<open>ProcessadorULTRADATA\<close> with the two
  static methods \<^verbatim>\<open>encontrar_duplicidades\<close> and \<^verbatim>\<open>analisar_coluna\<close>. Both work on a pandas
  DataFrame. A DataFrame is modelled by its column labels and its rows, in row order; a row
  is its index label together with its values, one per column. A cell is a scalar or one
  of the two missing values, \<^verbatim>\<open>None\<close> (here \<open>NoneV\<close>) and the float \<^verbatim>\<open>nan\<close> (here \<open>NaN\<close>): a column of
  dtype object, as a column of texts is, can hold both.
\<close>

datatype cell = NoneV | NaN | IntV int | StrV string

text \<open>\<^verbatim>\<open>pd.isna(v)\<close> on a scalar: both missing values are null.\<close>

definition is_missing :: "cell \<Rightarrow> bool" where
  "is_missing v \<longleftrightarrow> v = NoneV \<or> v = NaN"

type_synonym row = "nat \<times> cell list"

record dataframe =
  columns :: "string list"
  rows :: "row list"

datatype py_error = KeyError | ValueError | ZeroDivisionError

text \<open>
  The table invariant of the data model: every record maps each column name to one value,
  so the column labels are distinct and every row has one value per column.
\<close>

definition wf_df :: "dataframe \<Rightarrow> bool" where
  "wf_df df \<longleftrightarrow>
     distinct (columns df) \<and> list_all (\<lambda>r. length (snd r) = length (columns df)) (rows df)"

section \<open>The pandas operations the program calls\<close>

text \<open>\<^verbatim>\<open>pd.DataFrame()\<close>: the empty frame, with no column and no row.\<close>

definition pd_DataFrame :: dataframe where
  "pd_DataFrame = \<lparr>columns = [], rows = []\<rparr>"

text \<open>\<^verbatim>\<open>len(df)\<close>: the number of rows.\<close>

definition len_df :: "dataframe \<Rightarrow> nat" where
  "len_df df = length (rows df)"

text \<open>The value of a row under a column label (a record without the label holds NaN).\<close>

definition cell_of :: "string list \<Rightarrow> string \<Rightarrow> row \<Rightarrow> cell" where
  "cell_of cols c r = (case map_of (zip cols (snd r)) c of Some v \<Rightarrow> v | None \<Rightarrow> NaN)"

text \<open>\<^verbatim>\<open>df[c]\<close>: the column as a Series (its values in row order); KeyError without it.\<close>

definition getitem :: "dataframe \<Rightarrow> string \<Rightarrow> py_error + cell list" where
  "getitem df c =
     (if c \<in> set (columns df) then Inr (map (cell_of (columns df) c) (rows df))
      else Inl KeyError)"

text \<open>
  \<^verbatim>\<open>duplicated(keep=False)\<close> marks every occurrence of a key that occurs again: an entry is
  marked when its key was seen before it or is seen after it.
\<close>

fun duplicated_keep_False :: "'a list \<Rightarrow> 'a list \<Rightarrow> bool list" where
  "duplicated_keep_False seen [] = []"
| "duplicated_keep_False seen (x # xs) =
     (x \<in> set seen \<or> x \<in> set xs) # duplicated_keep_False (x # seen) xs"

text \<open>
  \<^verbatim>\<open>df.duplicated(subset=[c], keep=False)\<close>, the one form the program calls: with a single
  label the keys are the values of that column (\<^verbatim>\<open>Series.duplicated\<close>, in pandas 1.5 and later);
  KeyError when the label is not a column. Two keys are the same when they are equal
  scalars, when both are \<^verbatim>\<open>None\<close>, or when both are \<^verbatim>\<open>nan\<close>; a \<^verbatim>\<open>None\<close> and a \<^verbatim>\<open>nan\<close> are different
  keys. That is the equality of \<open>cell\<close>.
\<close>

definition duplicated :: "dataframe \<Rightarrow> string \<Rightarrow> py_error + bool list" where
  "duplicated df c =
     (if c \<in> set (columns df)
      then Inr (duplicated_keep_False [] (map (cell_of (columns df) c) (rows df)))
      else Inl KeyError)"

text \<open>
  \<^verbatim>\<open>df[mask]\<close> with a boolean mask: the rows whose mask entry is True, with their index labels
  and all columns, in row order; ValueError when the mask has another length than the frame.
\<close>

definition getitem_mask :: "dataframe \<Rightarrow> bool list \<Rightarrow> py_error + dataframe" where
  "getitem_mask df m =
     (if length m = length (rows df)
      then Inr (df\<lparr>rows := map fst (filter snd (zip (rows df) m))\<rparr>)
      else Inl ValueError)"

text \<open>
  The operations on a Series (the values of one column, in row order): \<^verbatim>\<open>dropna()\<close> keeps
  the values that are not missing, \<^verbatim>\<open>isna()\<close> is the mask of the missing ones, \<^verbatim>\<open>sum()\<close> of a
  boolean mask counts its True entries, \<^verbatim>\<open>nunique()\<close> counts the distinct values that are not
  missing, \<^verbatim>\<open>head(n)\<close> is the first \<open>n\<close> values, \<^verbatim>\<open>empty\<close> tells whether there is no value.
\<close>

definition dropna :: "cell list \<Rightarrow> cell list" where
  "dropna vs = filter (\<lambda>v. \<not> is_missing v) vs"

definition isna :: "cell list \<Rightarrow> bool list" where
  "isna vs = map is_missing vs"

definition sum_bool :: "bool list \<Rightarrow> nat" where
  "sum_bool bs = sum_list (map (\<lambda>b. if b then 1 else 0) bs)"

definition nunique :: "cell list \<Rightarrow> nat" where
  "nunique vs = length (remdups (dropna vs))"

definition head :: "nat \<Rightarrow> cell list \<Rightarrow> cell list" where
  "head n vs = take n vs"

definition series_empty :: "cell list \<Rightarrow> bool" where
  "series_empty vs \<longleftrightarrow> vs = []"

section \<open>encontrar\_duplicidades\<close>

text \<open>
  \<^verbatim>\<open>def encontrar_duplicidades(df, colunas=['sku', 'nome'], metodo='sku')\<close>. The body never
  reads \<open>colunas\<close>; the method tag \<^verbatim>\<open>'sku'\<close> is the exact match on the column \<^verbatim>\<open>'sku'\<close>.
\<close>

definition colunas_default :: "string list" where
  "colunas_default = [''sku'', ''nome'']"

definition metodo_default :: string where
  "metodo_default = ''sku''"

definition encontrar_duplicidades ::
    "dataframe \<Rightarrow> string list \<Rightarrow> string \<Rightarrow> py_error + dataframe" where
  "encontrar_duplicidades df colunas metodo =
     (let duplicados = pd_DataFrame in
      if metodo = ''sku'' \<and> ''sku'' \<in> set (columns df)
      then (case duplicated df ''sku'' of
              Inl e \<Rightarrow> Inl e
            | Inr m \<Rightarrow> getitem_mask df m)
      else Inr duplicados)"

text \<open>The multiplicity of a row's value under column \<open>c\<close> among the values of that column.\<close>

definition multiplicity :: "dataframe \<Rightarrow> string \<Rightarrow> row \<Rightarrow> nat" where
  "multiplicity df c r =
     count_list (map (cell_of (columns df) c) (rows df)) (cell_of (columns df) c r)"

text \<open>The rows of a table whose \<^verbatim>\<open>sku\<close> is a given value, and those whose \<^verbatim>\<open>sku\<close> is null.\<close>

definition sku_rows :: "dataframe \<Rightarrow> cell \<Rightarrow> row list" where
  "sku_rows df v = filter (\<lambda>r. cell_of (columns df) ''sku'' r = v) (rows df)"

definition null_sku_rows :: "dataframe \<Rightarrow> row list" where
  "null_sku_rows df = filter (\<lambda>r. is_missing (cell_of (columns df) ''sku'' r)) (rows df)"

text \<open>
  The reading of the specification in which the first entry of the key column list is the
  duplicate key: the rows whose value under that column occurs at least twice.
\<close>

definition findDuplicates_first_key :: "dataframe \<Rightarrow> string list \<Rightarrow> row list" where
  "findDuplicates_first_key df keyColumns =
     (case keyColumns of
        [] \<Rightarrow> []
      | k # _ \<Rightarrow> filter (\<lambda>r. 2 \<le> multiplicity df k r) (rows df))"

section \<open>Floats: true division, multiplication and the format \<^verbatim>\<open>.1f\<close>\<close>

text \<open>
  \<^verbatim>\<open>len(valores)/len(df)*100\<close> is computed in IEEE double precision and printed by
  \<^verbatim>\<open>f"{...:.1f}%"\<close>. A finite non-negative double is a pair \<open>(m, e)\<close> of the value
  \<open>m * 2 ^ e\<close>. Each operation gives the double nearest to the exact result, ties to the even
  mantissa, on 53 bits; the lengths are below \<open>2 ^ 63\<close>, so no result leaves the normal
  range. The format prints the decimal with one fractional digit nearest to the exact value
  of the double, ties to the even digit.
\<close>

type_synonym double = "nat \<times> int"

fun bit_length :: "nat \<Rightarrow> nat" where
  "bit_length n = (if n = 0 then 0 else Suc (bit_length (n div 2)))"

declare bit_length.simps [simp del]

text \<open>The integer nearest to \<open>n / d\<close>, ties to even.\<close>

definition round_half_even :: "nat \<Rightarrow> nat \<Rightarrow> nat" where
  "round_half_even n d =
     (let q = n div d; r = n mod d in
      if 2 * r < d then q
      else if d < 2 * r then q + 1
      else if even q then q else q + 1)"

text \<open>The fraction \<open>n / (d * 2 ^ e)\<close> as a numerator and a denominator.\<close>

definition scaled :: "nat \<Rightarrow> nat \<Rightarrow> int \<Rightarrow> nat \<times> nat" where
  "scaled n d e = (if 0 \<le> e then (n, d * 2 ^ nat e) else (n * 2 ^ nat (- e), d))"

text \<open>The double nearest to \<open>n / d\<close>, for \<open>0 < d\<close>: the exponent puts the mantissa in \<open>[2 ^ 52, 2 ^ 53]\<close>.\<close>

definition to_double :: "nat \<Rightarrow> nat \<Rightarrow> double" where
  "to_double n d =
     (if n = 0 then (0, 0)
      else let e0 = int (bit_length n) - int (bit_length d) - 53;
               (n0, d0) = scaled n d e0;
               e = (if n0 div d0 < 2 ^ 53 then e0 else e0 + 1);
               (n1, d1) = scaled n d e
           in (round_half_even n1 d1, e))"

text \<open>\<^verbatim>\<open>a / b\<close> on two lengths: ZeroDivisionError when the divisor is 0.\<close>

definition truediv :: "nat \<Rightarrow> nat \<Rightarrow> py_error + double" where
  "truediv a b = (if b = 0 then Inl ZeroDivisionError else Inr (to_double a b))"

text \<open>\<^verbatim>\<open>x * k\<close> for a double and a small integer (here 100, a double itself).\<close>

definition float_mul_nat :: "double \<Rightarrow> nat \<Rightarrow> double" where
  "float_mul_nat x k =
     (case x of (m, e) \<Rightarrow> (case scaled (m * k) 1 (- e) of (n, d) \<Rightarrow> to_double n d))"

definition digit_char :: "nat \<Rightarrow> char" where
  "digit_char n = ''0123456789'' ! (n mod 10)"

fun show_nat :: "nat \<Rightarrow> string" where
  "show_nat n =
     (if n < 10 then [digit_char n] else show_nat (n div 10) @ [digit_char (n mod 10)])"

declare show_nat.simps [simp del]

text \<open>The number of tenths the format \<^verbatim>\<open>.1f\<close> prints for a double, and the printed text.\<close>

definition tenths :: "double \<Rightarrow> nat" where
  "tenths x = (case x of (m, e) \<Rightarrow> (case scaled (10 * m) 1 (- e) of (n, d) \<Rightarrow> round_half_even n d))"

definition format_1f :: "double \<Rightarrow> string" where
  "format_1f x = show_nat (tenths x div 10) @ ''.'' @ [digit_char (tenths x mod 10)]"




section \<open>analisar\_coluna\<close>

text \<open>
  The dictionary \<^verbatim>\<open>analise\<close> that \<^verbatim>\<open>analisar_coluna\<close> returns, its keys in the source's order
  (\<^verbatim>\<open>'total'\<close> is the field \<open>total_count\<close>).
\<close>

record analise =
  total_count :: nat
  preenchidos :: nat
  vazios :: nat
  taxa_preenchimento :: string
  valores_unicos :: nat
  exemplos :: "cell list"

text \<open>
  \<^verbatim>\<open>def analisar_coluna(df, nome_coluna)\<close>: \<^verbatim>\<open>None\<close> (here \<open>Inr None\<close>) when the column is not in
  the frame; otherwise the dictionary, whose entries are evaluated in order, so that the
  division of the fill rate raises before anything is returned.
\<close>

definition analisar_coluna :: "dataframe \<Rightarrow> string \<Rightarrow> py_error + analise option" where
  "analisar_coluna df nome_coluna =
     (if nome_coluna \<notin> set (columns df) then Inr None
      else
        (case getitem df nome_coluna of
           Inl e \<Rightarrow> Inl e
         | Inr col \<Rightarrow>
             (let valores = dropna col in
              (case getitem df nome_coluna of
                 Inl e \<Rightarrow> Inl e
               | Inr col2 \<Rightarrow>
                   (case truediv (length valores) (len_df df) of
                      Inl e \<Rightarrow> Inl e
                    | Inr q \<Rightarrow>
                        Inr (Some
                          \<lparr>total_count = len_df df,
                           preenchidos = length valores,
                           vazios = sum_bool (isna col2),
                           taxa_preenchimento = format_1f (float_mul_nat q 100) @ ''%'',
                           valores_unicos = nunique valores,
                           exemplos =
                             (if \<not> series_empty valores then head 5 valores else [])\<rparr>))))))"

text \<open>The values of a column, and those that are not missing, in row order.\<close>

definition column_values :: "dataframe \<Rightarrow> string \<Rightarrow> cell list" where
  "column_values df c = map (cell_of (columns df) c) (rows df)"

definition non_null_values :: "dataframe \<Rightarrow> string \<Rightarrow> cell list" where
  "non_null_values df c = filter (\<lambda>v. \<not> is_missing v) (column_values df c)"

section \<open>Calls on DataFrame objects\<close>

text \<open>
  A DataFrame is a mutable object, and a call receives a reference to it. The heap holds
  the DataFrame objects created so far, a reference being a position in it. A step of a
  call takes the heap and gives its result, a value or a raised error, and the heap it
  leaves. Series and dictionaries are values of the call alone.
\<close>

type_synonym ref = nat

type_synonym heap = "dataframe list"

type_synonym 'a prog = "heap \<Rightarrow> (py_error + 'a) \<times> heap"










text \<open>
  For contrast, an operation that the program does not call:
  \<^verbatim>\<open>df.drop_duplicates(subset=[c], keep=False, inplace=True)\<close> writes the rows it keeps into
  the object itself.
\<close>

definition df_drop_duplicates_inplace :: "ref \<Rightarrow> string \<Rightarrow> unit prog" where
  "df_drop_duplicates_inplace p c =
     (\<lambda>h. case duplicated (h ! p) c of
             Inl e \<Rightarrow> (Inl e, h)
           | Inr m \<Rightarrow>
               (case getitem_mask (h ! p) (map Not m) of
                  Inl e \<Rightarrow> (Inl e, h)
                | Inr d \<Rightarrow> (Inr (), h[p := d])))"



text \<open>
  A step keeps the heap when every object that was there before it is there after it,
  unchanged; it may add objects.
\<close>

definition keeps_heap :: "'a prog \<Rightarrow> bool" where
  "keeps_heap m \<longleftrightarrow> (\<forall>h. take (length h) (snd (m h)) = h)"


section \<open>Example tables\<close>

text \<open>
  The table \<^verbatim>\<open>[{id:1,name:"A"},{id:2,name:"B"},{id:1,name:"A2"}]\<close>, the identifier column
  being \<^verbatim>\<open>sku\<close> and the name column \<^verbatim>\<open>nome\<close>, under the default index 0, 1, 2.
\<close>

definition tabela_exemplo :: dataframe where
  "tabela_exemplo =
     \<lparr>columns = [''sku'', ''nome''],
      rows = [(0, [IntV 1, StrV ''A'']), (1, [IntV 2, StrV ''B'']), (2, [IntV 1, StrV ''A2''])]\<rparr>"

text \<open>Two rows with distinct identifiers and the same name.\<close>

definition tabela_nomes :: dataframe where
  "tabela_nomes =
     \<lparr>columns = [''sku'', ''nome''],
      rows = [(0, [IntV 1, StrV ''A'']), (1, [IntV 2, StrV ''A''])]\<rparr>"

text \<open>A table without the column \<^verbatim>\<open>sku\<close>.\<close>

definition tabela_sem_sku :: dataframe where
  "tabela_sem_sku =
     \<lparr>columns = [''nome''], rows = [(0, [StrV ''A'']), (1, [StrV ''A''])]\<rparr>"

text \<open>A table where two identifiers are missing.\<close>

definition tabela_sku_nulo :: dataframe where
  "tabela_sku_nulo =
     \<lparr>columns = [''sku'', ''nome''],
      rows = [(0, [NaN, StrV ''A'']), (1, [IntV 7, StrV ''B'']), (2, [NaN, StrV ''C''])]\<rparr>"


text \<open>The table with the column \<^verbatim>\<open>sku\<close> and no row.\<close>

definition tabela_vazia :: dataframe where
  "tabela_vazia = \<lparr>columns = [''sku''], rows = []\<rparr>"

text \<open>A table of texts whose identifiers are a text, a \<^verbatim>\<open>None\<close> and a \<^verbatim>\<open>nan\<close>.\<close>

definition tabela_nulos_mistos :: dataframe where
  "tabela_nulos_mistos =
     \<lparr>columns = [''sku'', ''nome''],
      rows = [(0, [StrV ''a'', StrV ''A'']), (1, [NoneV, StrV ''B'']), (2, [NaN, StrV ''C''])]\<rparr>"

text \<open>A table where two identifiers are \<^verbatim>\<open>None\<close>.\<close>

definition tabela_sku_none :: dataframe where
  "tabela_sku_none =
     \<lparr>columns = [''sku'', ''nome''],
      rows = [(0, [NoneV, StrV ''A'']), (1, [StrV ''b'', StrV ''B'']), (2, [NoneV, StrV ''C''])]\<rparr>"

text \<open>The table with the columns \<^verbatim>\<open>sku\<close> and \<^verbatim>\<open>nome\<close> and no row.\<close>

definition tabela_sem_linhas :: dataframe where
  "tabela_sem_linhas = \<lparr>columns = [''sku'', ''nome''], rows = []\<rparr>"

text \<open>Seven rows, one of them without a name.\<close>

definition tabela_sete :: dataframe where
  "tabela_sete =
     \<lparr>columns = [''sku'', ''nome''],
      rows = [(0, [IntV 10, StrV ''A'']), (1, [IntV 11, StrV ''B'']), (2, [IntV 12, NoneV]),
              (3, [IntV 13, StrV ''C'']), (4, [IntV 14, StrV ''D'']), (5, [IntV 15, StrV ''E'']),
              (6, [IntV 16, StrV ''F''])]\<rparr>"

section \<open>Missing values\<close>

lemma is_missing_simps [simp]:
  "is_missing NoneV" "is_missing NaN" "\<not> is_missing (IntV i)" "\<not> is_missing (StrV t)"
  by (simp_all add: is_missing_def)

section \<open>Properties of the duplicate mask\<close>

lemma duplicated_keep_False_count:
  "duplicated_keep_False seen xs = map (\<lambda>x. 2 \<le> count_list (seen @ xs) x) xs"
proof (induction xs arbitrary: seen)
  case Nil
  show ?case by simp
next
  case (Cons a xs)
  have hd: "(a \<in> set seen \<or> a \<in> set xs) \<longleftrightarrow> 2 \<le> count_list (seen @ a # xs) a"
    using count_list_0_iff [of seen a] count_list_0_iff [of xs a] by auto
  have tl: "map (\<lambda>x. 2 \<le> count_list ((a # seen) @ xs) x) xs
          = map (\<lambda>x. 2 \<le> count_list (seen @ a # xs) x) xs"
    by simp
  show ?case
    using hd tl Cons.IH [of "a # seen"] by simp
qed

lemma length_duplicated_keep_False [simp]:
  "length (duplicated_keep_False seen xs) = length xs"
  by (simp add: duplicated_keep_False_count)

lemma select_by_mask: "map fst (filter snd (zip xs (map P xs))) = filter P xs"
  by (induction xs) auto

lemma mask_of_keys:
  "map fst (filter snd (zip rs (duplicated_keep_False [] (map k rs))))
     = filter (\<lambda>r. 2 \<le> count_list (map k rs) (k r)) rs"
proof -
  have "duplicated_keep_False [] (map k rs) = map (\<lambda>r. 2 \<le> count_list (map k rs) (k r)) rs"
    by (simp add: duplicated_keep_False_count comp_def)
  then show ?thesis
    by (simp add: select_by_mask)
qed

lemma encontrar_duplicidades_sku:
  assumes "''sku'' \<in> set (columns df)"
  shows "encontrar_duplicidades df colunas ''sku''
           = Inr (df\<lparr>rows := filter (\<lambda>r. 2 \<le> multiplicity df ''sku'' r) (rows df)\<rparr>)"
proof -
  let ?k = "cell_of (columns df) ''sku''"
  have "map fst (filter snd (zip (rows df) (duplicated_keep_False [] (map ?k (rows df)))))
          = filter (\<lambda>r. 2 \<le> multiplicity df ''sku'' r) (rows df)"
    using mask_of_keys [of "rows df" ?k] by (simp add: multiplicity_def)
  then show ?thesis
    using assms
    by (simp add: encontrar_duplicidades_def duplicated_def getitem_mask_def)
qed

lemma count_list_map_filter:
  "count_list (map f xs) v = length (filter (\<lambda>x. f x = v) xs)"
  by (induction xs) auto

section \<open>Evaluating the float operations\<close>

lemma bit_length_0 [simp]: "bit_length 0 = 0"
  by (simp add: bit_length.simps)

lemma bit_length_Suc_0 [simp]: "bit_length (Suc 0) = 1"
  by (subst bit_length.simps) simp

lemma bit_length_1 [simp]: "bit_length 1 = 1"
  using bit_length_Suc_0 by simp

lemma bit_length_Bit0 [simp]:
  "bit_length (numeral (Num.Bit0 k)) = Suc (bit_length (numeral k))"
  by (subst bit_length.simps) simp

lemma bit_length_Bit1 [simp]:
  "bit_length (numeral (Num.Bit1 k)) = Suc (bit_length (numeral k))"
  by (subst bit_length.simps) simp




section \<open>Properties of analisar\_coluna\<close>

lemma sum_bool_isna: "sum_bool (isna vs) = length (filter is_missing vs)"
  by (induction vs) (auto simp add: sum_bool_def isna_def)

lemma dropna_isna_length: "length (dropna vs) + sum_bool (isna vs) = length vs"
  using sum_length_filter_compl [of is_missing vs]
  by (simp add: sum_bool_isna dropna_def)

lemma analisar_coluna_present:
  assumes "c \<in> set (columns df)" and "rows df \<noteq> []"
  shows "analisar_coluna df c =
     Inr (Some
       \<lparr>total_count = length (rows df),
        preenchidos = length (non_null_values df c),
        vazios = sum_bool (isna (column_values df c)),
        taxa_preenchimento =
          format_1f (float_mul_nat (to_double (length (non_null_values df c)) (length (rows df))) 100) @ ''%'',
        valores_unicos = nunique (non_null_values df c),
        exemplos = take 5 (non_null_values df c)\<rparr>)"
  using assms
  by (simp add: analisar_coluna_def getitem_def truediv_def len_df_def dropna_def head_def
      series_empty_def non_null_values_def column_values_def Let_def)

lemma analisar_coluna_empty:
  assumes "c \<in> set (columns df)" and "rows df = []"
  shows "analisar_coluna df c = Inl ZeroDivisionError"
  using assms
  by (simp add: analisar_coluna_def getitem_def truediv_def len_df_def dropna_def Let_def)

lemma analisar_coluna_absent:
  "analisar_coluna df c = Inr None \<longleftrightarrow> c \<notin> set (columns df)"
proof (cases "c \<in> set (columns df)")
  case True
  then show ?thesis
    by (cases "rows df = []") (simp_all add: analisar_coluna_empty analisar_coluna_present)
next
  case False
  then show ?thesis
    by (simp add: analisar_coluna_def)
qed









section \<open>Accuracy of the float operations\<close>


















section \<open>Calls leave the heap they found\<close>











text \<open>The property is not one of every step: the in-place operation changes the object.\<close>

lemma drop_duplicates_inplace_changes:
  "\<not> keeps_heap (df_drop_duplicates_inplace 0 ''sku'')"
proof
  assume "keeps_heap (df_drop_duplicates_inplace 0 ''sku'')"
  then have "take (length [tabela_exemplo])
               (snd (df_drop_duplicates_inplace 0 ''sku'' [tabela_exemplo])) = [tabela_exemplo]"
    unfolding keeps_heap_def by (rule spec)
  then show False
    by (simp add: df_drop_duplicates_inplace_def duplicated_def getitem_mask_def cell_of_def
        tabela_exemplo_def)
qed





section \<open>The example tables evaluated\<close>






section \<open>The claims\<close>

text \<open>
  C1. For every table that has the identifier column \<^verbatim>\<open>sku\<close>, the method \<^verbatim>\<open>'sku'\<close> (the
  exact match) returns the frame with the same columns whose rows are exactly the rows of
  the table whose \<^verbatim>\<open>sku\<close> value has multiplicity at least 2 in the table: the result is the
  table filtered by that condition, so every occurrence is there, no row of multiplicity 1
  is, and the order is the table's. On the table of three rows with identifiers 1, 2, 1 the
  result is the rows of index 0 and 2, without the row of index 1.
\<close>

theorem encontrar_duplicidades_exact:
  assumes "wf_df df" and "''sku'' \<in> set (columns df)"
  shows "encontrar_duplicidades df colunas ''sku''
           = Inr (df\<lparr>rows := filter (\<lambda>r. 2 \<le> multiplicity df ''sku'' r) (rows df)\<rparr>)
         \<and> encontrar_duplicidades tabela_exemplo colunas_default metodo_default
           = Inr \<lparr>columns = [''sku'', ''nome''],
                  rows = [(0, [IntV 1, StrV ''A'']), (2, [IntV 1, StrV ''A2''])]\<rparr>"
proof
  show "encontrar_duplicidades df colunas ''sku''
          = Inr (df\<lparr>rows := filter (\<lambda>r. 2 \<le> multiplicity df ''sku'' r) (rows df)\<rparr>)"
    using assms(2) by (rule encontrar_duplicidades_sku)
next
  show "encontrar_duplicidades tabela_exemplo colunas_default metodo_default
          = Inr \<lparr>columns = [''sku'', ''nome''],
                 rows = [(0, [IntV 1, StrV ''A'']), (2, [IntV 1, StrV ''A2''])]\<rparr>"
    by (simp add: encontrar_duplicidades_def metodo_default_def tabela_exemplo_def
        duplicated_def cell_of_def getitem_mask_def)
qed

theorem encontrar_duplicidades_exact_witness:
  "wf_df tabela_sku_nulo \<and> ''sku'' \<in> set (columns tabela_sku_nulo)
   \<and> encontrar_duplicidades tabela_sku_nulo [''nome''] ''sku''
       = Inr \<lparr>columns = [''sku'', ''nome''],
              rows = [(0, [NaN, StrV ''A'']), (2, [NaN, StrV ''C''])]\<rparr>"
proof -
  have wf: "wf_df tabela_sku_nulo"
    by (simp add: wf_df_def tabela_sku_nulo_def)
  have sku: "''sku'' \<in> set (columns tabela_sku_nulo)"
    by (simp add: tabela_sku_nulo_def)
  have flt: "filter (\<lambda>r. 2 \<le> multiplicity tabela_sku_nulo ''sku'' r) (rows tabela_sku_nulo)
               = [(0, [NaN, StrV ''A'']), (2, [NaN, StrV ''C''])]"
    by (simp add: multiplicity_def cell_of_def tabela_sku_nulo_def)
  have "tabela_sku_nulo\<lparr>rows := [(0, [NaN, StrV ''A'']), (2, [NaN, StrV ''C''])]\<rparr>
          = \<lparr>columns = [''sku'', ''nome''],
             rows = [(0, [NaN, StrV ''A'']), (2, [NaN, StrV ''C''])]\<rparr>"
    by (simp add: tabela_sku_nulo_def)
  then show ?thesis
    using wf sku flt encontrar_duplicidades_exact [OF wf sku, of "[''nome'']"] by simp
qed

text \<open>
  C2. On a table without rows, for a column that is present, the claim asks for a guarded
  fill rate and a defined result. The code divides \<^verbatim>\<open>len(valores)\<close> by \<^verbatim>\<open>len(df)\<close>, which is 0,
  with no guard: the call raises ZeroDivisionError and returns no dictionary.
\<close>

theorem analisar_coluna_empty_table_raises:
  "''sku'' \<in> set (columns tabela_vazia)
   \<and> len_df tabela_vazia = 0
   \<and> analisar_coluna tabela_vazia ''sku'' = Inl ZeroDivisionError"
  by (simp add: analisar_coluna_def getitem_def truediv_def len_df_def tabela_vazia_def)





text \<open>
  C5. The claim has two halves. The first holds: the result is \<^verbatim>\<open>None\<close> exactly when the
  column is not in the table (\<open>analisar_coluna_absent\<close>). The second, that a present
  column gives a dictionary, fails on a table without rows through the division of C2: the
  column \<^verbatim>\<open>nome\<close> is present, and the call returns neither \<^verbatim>\<open>None\<close> nor a dictionary.
\<close>

theorem analisar_coluna_present_column_raises:
  "''nome'' \<in> set (columns tabela_sem_linhas)
   \<and> analisar_coluna tabela_sem_linhas ''nome'' \<noteq> Inr None
   \<and> analisar_coluna tabela_sem_linhas ''nome'' = Inl ZeroDivisionError"
  by (simp add: analisar_coluna_def getitem_def truediv_def len_df_def tabela_sem_linhas_def)

text \<open>
  C6. When the method tag is not \<^verbatim>\<open>'sku'\<close> (the exact method), or the table has no column
  \<^verbatim>\<open>sku\<close>, the call raises nothing and returns the empty frame \<^verbatim>\<open>pd.DataFrame()\<close>, whatever
  the table and the key column list are.
\<close>

theorem encontrar_duplicidades_empty:
  assumes "metodo \<noteq> ''sku'' \<or> ''sku'' \<notin> set (columns df)"
  shows "encontrar_duplicidades df colunas metodo = Inr pd_DataFrame
         \<and> rows pd_DataFrame = []"
  using assms by (auto simp add: encontrar_duplicidades_def pd_DataFrame_def)

theorem encontrar_duplicidades_empty_witness:
  "''nome'' \<noteq> ''sku''
   \<and> encontrar_duplicidades tabela_exemplo colunas_default ''nome''
       = Inr \<lparr>columns = [], rows = []\<rparr>
   \<and> ''sku'' \<notin> set (columns tabela_sem_sku)
   \<and> encontrar_duplicidades tabela_sem_sku colunas_default ''sku''
       = Inr \<lparr>columns = [], rows = []\<rparr>"
proof -
  have m: "''nome'' \<noteq> ''sku'' \<or> ''sku'' \<notin> set (columns tabela_exemplo)"
    by simp
  have c: "''sku'' \<notin> set (columns tabela_sem_sku)"
    by (simp add: tabela_sem_sku_def)
  then have c': "''sku'' \<noteq> ''sku'' \<or> ''sku'' \<notin> set (columns tabela_sem_sku)"
    by simp
  show ?thesis
    using c encontrar_duplicidades_empty [OF m, of colunas_default]
      encontrar_duplicidades_empty [OF c', of colunas_default]
    by (simp add: pd_DataFrame_def)
qed

text \<open>
  C7, as the code has it. The key column list is never read: with the method \<^verbatim>\<open>'sku'\<close> the
  duplicate key is the fixed column \<^verbatim>\<open>sku\<close>, whatever list is passed, also the empty one.
  The result is the rows whose value under \<^verbatim>\<open>sku\<close> has multiplicity at least 2, which is what
  the first-entry reading gives for a list that starts with \<^verbatim>\<open>sku\<close>.
\<close>

theorem encontrar_duplicidades_ignores_colunas:
  assumes "wf_df df" and "''sku'' \<in> set (columns df)"
  shows "encontrar_duplicidades df colunas ''sku''
           = Inr (df\<lparr>rows := filter (\<lambda>r. 2 \<le> multiplicity df ''sku'' r) (rows df)\<rparr>)
       \<and> encontrar_duplicidades df colunas ''sku''
           = Inr (df\<lparr>rows := findDuplicates_first_key df (''sku'' # outras)\<rparr>)"
  using encontrar_duplicidades_sku [OF assms(2), of colunas]
  by (simp add: findDuplicates_first_key_def)

theorem encontrar_duplicidades_ignores_colunas_witness:
  "wf_df tabela_nomes \<and> ''sku'' \<in> set (columns tabela_nomes)
   \<and> findDuplicates_first_key tabela_nomes [''sku'', ''nome''] = []
   \<and> encontrar_duplicidades tabela_nomes [''nome'', ''sku''] ''sku''
       = Inr \<lparr>columns = [''sku'', ''nome''], rows = []\<rparr>"
proof -
  have wf: "wf_df tabela_nomes"
    by (simp add: wf_df_def tabela_nomes_def)
  have sku: "''sku'' \<in> set (columns tabela_nomes)"
    by (simp add: tabela_nomes_def)
  have none: "findDuplicates_first_key tabela_nomes [''sku'', ''nome''] = []"
    by (simp add: findDuplicates_first_key_def multiplicity_def cell_of_def tabela_nomes_def)
  have "tabela_nomes\<lparr>rows := []\<rparr> = \<lparr>columns = [''sku'', ''nome''], rows = []\<rparr>"
    by (simp add: tabela_nomes_def)
  then show ?thesis
    using wf sku none
      encontrar_duplicidades_ignores_colunas
        [OF wf sku, of "[''nome'', ''sku'']" "[''nome'']", THEN conjunct2]
    by simp
qed

text \<open>
  The claim as written fails: on the table of two rows with identifiers 1 and 2 and the
  same name, called with the key columns \<^verbatim>\<open>['nome', 'sku']\<close>, the first-listed column \<^verbatim>\<open>nome\<close>
  has both rows at multiplicity 2, and the code returns no row.
\<close>

theorem encontrar_duplicidades_first_key_counterexample:
  "wf_df tabela_nomes
   \<and> ''nome'' \<in> set (columns tabela_nomes)
   \<and> findDuplicates_first_key tabela_nomes [''nome'', ''sku'']
       = [(0, [IntV 1, StrV ''A'']), (1, [IntV 2, StrV ''A''])]
   \<and> encontrar_duplicidades tabela_nomes [''nome'', ''sku''] ''sku''
       = Inr \<lparr>columns = [''sku'', ''nome''], rows = []\<rparr>"
  by (simp add: wf_df_def findDuplicates_first_key_def multiplicity_def cell_of_def
      tabela_nomes_def encontrar_duplicidades_def duplicated_def getitem_mask_def)





text \<open>
  C10, as the code has it. Null identifiers of the same kind are equal keys: when at least
  two rows of the table have the identifier \<^verbatim>\<open>None\<close>, the exact method returns every row whose
  identifier is \<^verbatim>\<open>None\<close>, in the table's order, and likewise for \<^verbatim>\<open>nan\<close>.
\<close>

theorem encontrar_duplicidades_null_keys:
  assumes "wf_df df" and "''sku'' \<in> set (columns df)"
    and "v = NoneV \<or> v = NaN"
    and "2 \<le> length (sku_rows df v)"
  shows "\<exists>res. encontrar_duplicidades df colunas ''sku'' = Inr res
           \<and> sku_rows res v = sku_rows df v"
proof -
  let ?is_v = "\<lambda>r. cell_of (columns df) ''sku'' r = v"
  have dup: "2 \<le> multiplicity df ''sku'' r" if "?is_v r" for r
    using that assms(4) by (simp add: multiplicity_def count_list_map_filter sku_rows_def)
  have "filter ?is_v (filter (\<lambda>r. 2 \<le> multiplicity df ''sku'' r) (rows df))
          = filter ?is_v (rows df)"
    using dup by (auto simp add: filter_filter intro: filter_cong)
  then show ?thesis
    using encontrar_duplicidades_sku [OF assms(2), of colunas] by (simp add: sku_rows_def)
qed

theorem encontrar_duplicidades_null_keys_witness:
  "wf_df tabela_sku_nulo \<and> ''sku'' \<in> set (columns tabela_sku_nulo)
   \<and> sku_rows tabela_sku_nulo NaN = [(0, [NaN, StrV ''A'']), (2, [NaN, StrV ''C''])]
   \<and> (\<exists>res. encontrar_duplicidades tabela_sku_nulo colunas_default ''sku'' = Inr res
         \<and> sku_rows res NaN = [(0, [NaN, StrV ''A'']), (2, [NaN, StrV ''C''])])
   \<and> wf_df tabela_sku_none \<and> ''sku'' \<in> set (columns tabela_sku_none)
   \<and> sku_rows tabela_sku_none NoneV = [(0, [NoneV, StrV ''A'']), (2, [NoneV, StrV ''C''])]
   \<and> (\<exists>res. encontrar_duplicidades tabela_sku_none colunas_default ''sku'' = Inr res
         \<and> sku_rows res NoneV = [(0, [NoneV, StrV ''A'']), (2, [NoneV, StrV ''C''])])"
proof -
  have wf: "wf_df tabela_sku_nulo" and wf': "wf_df tabela_sku_none"
    by (simp_all add: wf_df_def tabela_sku_nulo_def tabela_sku_none_def)
  have sku: "''sku'' \<in> set (columns tabela_sku_nulo)"
    and sku': "''sku'' \<in> set (columns tabela_sku_none)"
    by (simp_all add: tabela_sku_nulo_def tabela_sku_none_def)
  have nans: "sku_rows tabela_sku_nulo NaN = [(0, [NaN, StrV ''A'']), (2, [NaN, StrV ''C''])]"
    by (simp add: sku_rows_def cell_of_def tabela_sku_nulo_def)
  have nones: "sku_rows tabela_sku_none NoneV
                 = [(0, [NoneV, StrV ''A'']), (2, [NoneV, StrV ''C''])]"
    by (simp add: sku_rows_def cell_of_def tabela_sku_none_def)
  have two: "2 \<le> length (sku_rows tabela_sku_nulo NaN)"
    and two': "2 \<le> length (sku_rows tabela_sku_none NoneV)"
    by (simp_all add: nans nones)
  have k: "NaN = NoneV \<or> NaN = NaN" and k': "NoneV = NoneV \<or> NoneV = NaN"
    by simp_all
  show ?thesis
    using wf sku wf' sku'
      encontrar_duplicidades_null_keys [OF wf sku k two, of colunas_default]
      encontrar_duplicidades_null_keys [OF wf' sku' k' two', of colunas_default]
    by (simp add: nans nones)
qed

text \<open>
  The claim as written fails: a \<^verbatim>\<open>None\<close> and a \<^verbatim>\<open>nan\<close> are both null and are different keys.
  On the table whose identifiers are \<^verbatim>\<open>'a'\<close>, \<^verbatim>\<open>None\<close> and \<^verbatim>\<open>nan\<close> two rows have a null
  identifier, and the exact method returns no row.
\<close>

theorem encontrar_duplicidades_null_keys_counterexample:
  "wf_df tabela_nulos_mistos
   \<and> ''sku'' \<in> set (columns tabela_nulos_mistos)
   \<and> null_sku_rows tabela_nulos_mistos = [(1, [NoneV, StrV ''B'']), (2, [NaN, StrV ''C''])]
   \<and> encontrar_duplicidades tabela_nulos_mistos colunas_default ''sku''
       = Inr \<lparr>columns = [''sku'', ''nome''], rows = []\<rparr>"
  by (simp add: wf_df_def null_sku_rows_def is_missing_def cell_of_def tabela_nulos_mistos_def
      encontrar_duplicidades_def duplicated_def getitem_mask_def)

section \<open>Further properties of analisar\_coluna\<close>

text \<open>
  The result is \<^verbatim>\<open>None\<close> exactly when the column is not in the table, for every table.
\<close>

theorem analisar_coluna_sentinel:
  "analisar_coluna df c = Inr None \<longleftrightarrow> c \<notin> set (columns df)"
  by (rule analisar_coluna_absent)

text \<open>
  On a table with at least one row, a present column gives a dictionary and nothing is
  raised.
\<close>

theorem analisar_coluna_returns:
  assumes "c \<in> set (columns df)" and "rows df \<noteq> []"
  shows "\<exists>a. analisar_coluna df c = Inr (Some a)"
  using analisar_coluna_present [OF assms] by simp

theorem analisar_coluna_returns_witness:
  "''nome'' \<in> set (columns tabela_sete) \<and> rows tabela_sete \<noteq> []
   \<and> (\<exists>a. analisar_coluna tabela_sete ''nome'' = Inr (Some a))"
proof -
  have c: "''nome'' \<in> set (columns tabela_sete)" and r: "rows tabela_sete \<noteq> []"
    by (simp_all add: tabela_sete_def)
  show ?thesis
    using c r analisar_coluna_returns [OF c r] by simp
qed

end
